theory Spec2Isabelle
  imports Main "HOL-Library.Word"
begin

section \<open>The memento store of mementor.go\<close>

text \<open>
  The embedding follows \<^verbatim>\<open>src/mementor.go\<close> (version 0.2.0). Go's \<^verbatim>\<open>int\<close> and
  \<^verbatim>\<open>int64\<close> are 64-bit two's complement words (a 64-bit target): \<open>+\<close> wraps around and
  comparisons read the word through \<open>sint\<close>. Slice indices and lengths are \<open>nat\<close>.
\<close>

subsection \<open>Data\<close>

text \<open>\<^verbatim>\<open>type Memento struct { Id int; Msg string; Time int64; Priority int }\<close>\<close>

record Memento =
  Id' :: "64 word"
  Msg :: string
  Time :: "64 word"
  Priority :: "64 word"

subsection \<open>Lookup\<close>

text \<open>
  The loop of \<^verbatim>\<open>sort.Search(n, f)\<close> of the Go standard library:
  \<^verbatim>\<open>i, j := 0, n; for i < j { h := int(uint(i+j) >> 1); if !f(h) { i = h + 1 } else { j = h } }; return i\<close>
\<close>

function Search_loop :: "(nat \<Rightarrow> bool) \<Rightarrow> nat \<Rightarrow> nat \<Rightarrow> nat" where
  "Search_loop f i j =
     (if i < j then
        (let h = (i + j) div 2
         in if \<not> f h then Search_loop f (h + 1) j else Search_loop f i h)
      else i)"
  by pat_completeness auto
termination
  by (relation "measure (\<lambda>(f, i, j). j - i)") auto

declare Search_loop.simps [simp del]

definition Search :: "nat \<Rightarrow> (nat \<Rightarrow> bool) \<Rightarrow> nat" where
  "Search n f = Search_loop f 0 n"

text \<open>
  \<^verbatim>\<open>findMementoById\<close>: the index of the memento with the given id and \<open>True\<close>, or
  \<open>(0, False)\<close>. The closure given to \<^verbatim>\<open>sort.Search\<close> is \<^verbatim>\<open>mementos[i].Id >= id\<close>, a
  signed comparison.
\<close>

definition findMementoById :: "Memento list \<Rightarrow> 64 word \<Rightarrow> nat \<times> bool" where
  "findMementoById mementos id' =
     (let count = length mementos;
          n = Search count (\<lambda>i. sint id' \<le> sint (Id' (mementos ! i)))
      in if n < count \<and> Id' (mementos ! n) = id' then (n, True) else (0, False))"

subsection \<open>Command-line arguments\<close>

text \<open>
  \<^verbatim>\<open>strings.Split(s, ":")\<close>: the substrings between the separators, at least one. Go
  strings are byte sequences, as \<open>string\<close> is.
\<close>

fun Split :: "string \<Rightarrow> char \<Rightarrow> string list" where
  "Split [] c = [] # []"
| "Split (x # xs) c =
     (if x = c then [] # Split xs c
      else (case Split xs c of [] \<Rightarrow> [x] # [] | y # ys \<Rightarrow> (x # y) # ys))"

text \<open>\<^verbatim>\<open>strings.Join(elems, sep)\<close>\<close>

fun Join :: "string list \<Rightarrow> string \<Rightarrow> string" where
  "Join [] sep = []"
| "Join [x] sep = x"
| "Join (x # y # ys) sep = x @ sep @ Join (y # ys) sep"

text \<open>
  \<^verbatim>\<open>strconv.ParseInt(s, 10, 0)\<close> of the Go standard library: an optional sign, then one
  or more decimal digits, read by \<^verbatim>\<open>ParseUint\<close>; a value outside the 64-bit range is
  a range error (\<open>18446744073709551615 = 2 ^ 64 - 1\<close>, \<open>9223372036854775808 = 2 ^ 63\<close>).
\<close>

datatype num_error = ErrSyntax | ErrRange

definition digit :: "char \<Rightarrow> nat option" where
  "digit c = (let d = (of_char c :: nat) in if 48 \<le> d \<and> d \<le> 57 then Some (d - 48) else None)"

fun ParseUint_loop :: "string \<Rightarrow> nat \<Rightarrow> num_error + nat" where
  "ParseUint_loop [] n = Inr n"
| "ParseUint_loop (c # cs) n =
     (case digit c of
        None \<Rightarrow> Inl ErrSyntax
      | Some d \<Rightarrow>
          if 18446744073709551615 < n * 10 + d then Inl ErrRange else ParseUint_loop cs (n * 10 + d))"

definition ParseUint :: "string \<Rightarrow> num_error + nat" where
  "ParseUint s = (if s = [] then Inl ErrSyntax else ParseUint_loop s 0)"

definition ParseInt :: "string \<Rightarrow> num_error + 64 word" where
  "ParseInt s =
     (case s of
        [] \<Rightarrow> Inl ErrSyntax
      | c # cs \<Rightarrow>
          (let neg = (c = CHR ''-'');
               s' = (if c = CHR ''+'' \<or> c = CHR ''-'' then cs else s)
           in case ParseUint s' of
                Inl e \<Rightarrow> Inl e
              | Inr un \<Rightarrow>
                  if \<not> neg \<and> 9223372036854775808 \<le> un then Inl ErrRange
                  else if neg \<and> 9223372036854775808 < un then Inl ErrRange
                  else Inr (if neg then - word_of_nat un else word_of_nat un)))"

text \<open>
  The regular expressions of \<^verbatim>\<open>modify\<close>: \<^verbatim>\<open>^pri.*\<close> matches the strings that begin with
  \<^verbatim>\<open>pri\<close>, \<^verbatim>\<open>^m.*\<close> those that begin with \<^verbatim>\<open>m\<close>.
\<close>

definition rePriority :: "string \<Rightarrow> bool" where
  "rePriority s = (take 3 s = ''pri'')"

definition reMsg :: "string \<Rightarrow> bool" where
  "reMsg s = (take 1 s = ''m'')"

subsection \<open>Errors, the data file and its environment\<close>

text \<open>One constructor for each error the source returns, and one for the index panic.\<close>

datatype error =
    NotEnoughArguments
  | MissingMessage
  | MissingId
  | InvalidId string
  | NotFound "64 word"
  | BadModification
  | NotANumber string
  | InvalidProperty string
  | OpenError
  | DecodeError
  | MkdirError
  | CreateError
  | WriteError
  | IndexOutOfRange

text \<open>
  The data file is modelled by what \<^verbatim>\<open>json.Decoder.Decode\<close> makes of it: a sequence of
  mementos (the empty file is the empty sequence), or content that does not decode.
  \<^verbatim>\<open>json.Marshal\<close> followed by \<^verbatim>\<open>Decode\<close> is taken to be the identity on sequences. It is
  on the ids, times and priorities, and on every message that is valid UTF-8, as the
  messages that \<^verbatim>\<open>Decode\<close> returns are; in a message that comes from the command line
  \<^verbatim>\<open>json.Marshal\<close> replaces each byte that is not valid UTF-8 by U+FFFD, which the model
  leaves out. The theorems therefore fix the text of a message taken from the command
  line only where it is valid UTF-8: the empty message and the ASCII messages of the
  examples. The slice holds pointers; the decoder allocates one record for each element, so the
  pointers are distinct and the slice is modelled as the list of the records. An array
  with a \<^verbatim>\<open>null\<close> element, which decodes to a nil pointer, is not a sequence of mementos
  and is outside the model.
\<close>

datatype dataFile = Holds "Memento list" | Garbled

text \<open>What a failed \<^verbatim>\<open>file.Write\<close> leaves in the truncated file: nothing, or a proper
  prefix of the JSON text.\<close>

datatype residue = LeftEmpty | LeftPartial

text \<open>
  What one invocation cannot compute from its arguments and the file: whether the file
  system calls fail, the clock (\<^verbatim>\<open>time.Now().Unix()\<close>) and the number drawn by the random
  generator.
\<close>

record env =
  open_fails :: bool
  mkdir_fails :: bool
  create_fails :: bool
  write_fails :: "residue option"
  now :: "64 word"
  rnd :: nat

definition readMementos :: "env \<Rightarrow> dataFile \<Rightarrow> error + Memento list" where
  "readMementos e f =
     (if open_fails e then Inl OpenError
      else case f of Garbled \<Rightarrow> Inl DecodeError | Holds mementos \<Rightarrow> Inr mementos)"

text \<open>\<^verbatim>\<open>createFile\<close> creates the directory if necessary and truncates the file.\<close>

definition createFile :: "env \<Rightarrow> dataFile \<Rightarrow> error + dataFile" where
  "createFile e f =
     (if mkdir_fails e then Inl MkdirError
      else if create_fails e then Inl CreateError
      else Inr (Holds []))"

definition writeMementos :: "env \<Rightarrow> Memento list \<Rightarrow> dataFile \<Rightarrow> error option \<times> dataFile" where
  "writeMementos e mementos f =
     (case createFile e f of
        Inl err \<Rightarrow> (Some err, f)
      | Inr truncated \<Rightarrow>
          (case write_fails e of
             None \<Rightarrow> (None, Holds mementos)
           | Some LeftEmpty \<Rightarrow> (Some WriteError, truncated)
           | Some LeftPartial \<Rightarrow> (Some WriteError, Garbled)))"

definition parseId :: "string list \<Rightarrow> error + 64 word" where
  "parseId args =
     (if length args < 2 then Inl MissingId
      else case ParseInt (args ! 1) of
             Inl _ \<Rightarrow> Inl (InvalidId (args ! 1))
           | Inr id' \<Rightarrow> if sint id' < 0 then Inl (InvalidId (args ! 1)) else Inr id')"

subsection \<open>The commands\<close>

text \<open>
  Each command takes the environment, the arguments \<^verbatim>\<open>flag.Args()\<close> (the command name
  first) and the file, and returns its error and the file it leaves.
\<close>

text \<open>\<^verbatim>\<open>rand.Intn(n)\<close> for \<open>0 < n\<close>: a number in \<open>[0, n)\<close>, here the number drawn, reduced.\<close>

definition Intn :: "nat \<Rightarrow> nat \<Rightarrow> nat" where
  "Intn r n = r mod n"

text \<open>\<^verbatim>\<open>fetch\<close> returns its error and the line it prints, if any.\<close>

definition fetch :: "env \<Rightarrow> dataFile \<Rightarrow> error option \<times> string option" where
  "fetch e f =
     (case readMementos e f of
        Inl err \<Rightarrow> (Some err, None)
      | Inr mementos \<Rightarrow>
          if length mementos < 1 then (None, None)
          else (let n = Intn (rnd e) (length mementos)
                in if n < length mementos then (None, Some (Msg (mementos ! n)))
                   else (Some IndexOutOfRange, None)))"

text \<open>
  \<^verbatim>\<open>modify\<close>: \<^verbatim>\<open>m := mementos[n]\<close> is a pointer into the slice, so the assignment to
  \<^verbatim>\<open>m.Priority\<close> or \<^verbatim>\<open>m.Msg\<close> changes element \<open>n\<close> of the sequence that is written.
\<close>

definition modify :: "env \<Rightarrow> string list \<Rightarrow> dataFile \<Rightarrow> error option \<times> dataFile" where
  "modify e args f =
     (if length args < 3 then (Some NotEnoughArguments, f)
      else case parseId args of
        Inl err \<Rightarrow> (Some err, f)
      | Inr id' \<Rightarrow>
         (case readMementos e f of
            Inl err \<Rightarrow> (Some err, f)
          | Inr mementos \<Rightarrow>
             (case findMementoById mementos id' of
                (n, ok) \<Rightarrow>
                  if \<not> ok then (Some (NotFound id'), f)
                  else (let m = mementos ! n;
                            mod' = Split (args ! 2) CHR '':''
                        in if length mod' < 2 then (Some BadModification, f)
                           else if rePriority (mod' ! 0) then
                             (case ParseInt (mod' ! 1) of
                                Inl _ \<Rightarrow> (Some (NotANumber (mod' ! 1)), f)
                              | Inr v \<Rightarrow>
                                  writeMementos e (mementos[n := m\<lparr>Priority := v\<rparr>]) f)
                           else if reMsg (mod' ! 0) then
                             writeMementos e (mementos[n := m\<lparr>Msg := mod' ! 0\<rparr>]) f
                           else (Some (InvalidProperty (mod' ! 0)), f)))))"

text \<open>\<^verbatim>\<open>add\<close> reads the file before it looks at the read error.\<close>

definition add :: "env \<Rightarrow> string list \<Rightarrow> dataFile \<Rightarrow> error option \<times> dataFile" where
  "add e args f =
     (if length args < 2 then (Some MissingMessage, f)
      else (let msg = Join (tl args) '' '';
                r = readMementos e f;
                mementos = (case r of Inl _ \<Rightarrow> [] | Inr ms \<Rightarrow> ms);
                lastId = (if length mementos < 1 then 0
                          else Id' (mementos ! (length mementos - 1)));
                m = \<lparr>Id' = lastId + 1, Msg = msg, Time = now e, Priority = 1\<rparr>
            in case r of
                 Inl err \<Rightarrow> (Some err, f)
               | Inr _ \<Rightarrow> writeMementos e (mementos @ [m]) f))"

text \<open>\<^verbatim>\<open>remove\<close> drops the error of \<^verbatim>\<open>writeMementos\<close> and returns \<^verbatim>\<open>nil\<close>.\<close>

definition remove :: "env \<Rightarrow> string list \<Rightarrow> dataFile \<Rightarrow> error option \<times> dataFile" where
  "remove e args f =
     (case parseId args of
        Inl err \<Rightarrow> (Some err, f)
      | Inr id' \<Rightarrow>
         (case readMementos e f of
            Inl err \<Rightarrow> (Some err, f)
          | Inr mementos \<Rightarrow>
             (case findMementoById mementos id' of
                (n, ok) \<Rightarrow>
                  if \<not> ok then (Some (NotFound id'), f)
                  else (None, snd (writeMementos e (take n mementos @ drop (n + 1) mementos) f)))))"

subsection \<open>Orderings of a stored sequence\<close>

text \<open>Sorted ascending by id, and strictly ascending (sorted with unique ids).\<close>

definition sorted_by_id :: "Memento list \<Rightarrow> bool" where
  "sorted_by_id ms = sorted (map (\<lambda>m. sint (Id' m)) ms)"

definition ascending :: "Memento list \<Rightarrow> bool" where
  "ascending ms = sorted_wrt (<) (map (\<lambda>m. sint (Id' m)) ms)"

subsection \<open>Sequences of invocations\<close>

text \<open>
  An \<^verbatim>\<open>add\<close> or \<^verbatim>\<open>rm\<close> invocation with its environment and arguments; \<open>run\<close> performs a
  sequence of them on the file, one after the other, whatever each returns.
\<close>

datatype mutation = Add env "string list" | Remove env "string list"

fun apply_mutation :: "mutation \<Rightarrow> dataFile \<Rightarrow> dataFile" where
  "apply_mutation (Add e args) f = snd (add e args f)"
| "apply_mutation (Remove e args) f = snd (remove e args f)"

fun run :: "mutation list \<Rightarrow> dataFile \<Rightarrow> dataFile" where
  "run [] f = f"
| "run (m # ms) f = run ms (apply_mutation m f)"

text \<open>The sequence a file holds; content that does not decode holds none.\<close>

definition stored :: "dataFile \<Rightarrow> Memento list" where
  "stored f = (case f of Holds ms \<Rightarrow> ms | Garbled \<Rightarrow> [])"

text \<open>
  The largest \<^verbatim>\<open>int\<close>, \<open>2 ^ 63 - 1\<close>. \<open>below_max f\<close>: the last record of the file, if
  there is one, has an id other than the largest, so that \<^verbatim>\<open>lastId + 1\<close> does not wrap.
  \<open>no_wrap ops f\<close>: in the run of \<open>ops\<close> from \<open>f\<close>, every \<^verbatim>\<open>add\<close> starts from such a file.
\<close>

definition MaxInt :: "64 word" where
  "MaxInt = 9223372036854775807"

definition below_max :: "dataFile \<Rightarrow> bool" where
  "below_max f = (if stored f = [] then True else Id' (last (stored f)) \<noteq> MaxInt)"

fun no_wrap :: "mutation list \<Rightarrow> dataFile \<Rightarrow> bool" where
  "no_wrap [] f = True"
| "no_wrap (Add e args # ops) f = (below_max f \<and> no_wrap ops (apply_mutation (Add e args) f))"
| "no_wrap (Remove e args # ops) f = no_wrap ops (apply_mutation (Remove e args) f)"

section \<open>Binary search\<close>

lemma Search_loop_spec:
  assumes "\<And>a b. a \<le> b \<Longrightarrow> b < n \<Longrightarrow> f a \<Longrightarrow> f b"
    and "i \<le> j" "j \<le> n"
    and "\<And>k. k < i \<Longrightarrow> \<not> f k"
    and "\<And>k. j \<le> k \<Longrightarrow> k < n \<Longrightarrow> f k"
  shows "i \<le> Search_loop f i j \<and> Search_loop f i j \<le> j
       \<and> (\<forall>k < Search_loop f i j. \<not> f k)
       \<and> (\<forall>k. Search_loop f i j \<le> k \<and> k < n \<longrightarrow> f k)"
  using assms
proof (induction f i j rule: Search_loop.induct)
  case (1 f i j)
  note mono = "1.prems"(1)
  show ?case
  proof (cases "i < j")
    case False
    with "1.prems" have "Search_loop f i j = i" "i = j"
      by (simp_all add: Search_loop.simps)
    with "1.prems" show ?thesis by auto
  next
    case True
    define h where "h = (i + j) div 2"
    have hb: "i \<le> h" "h < j" using True by (simp_all add: h_def)
    have hn: "h < n" using hb "1.prems"(3) by simp
    show ?thesis
    proof (cases "f h")
      case False
      have eq: "Search_loop f i j = Search_loop f (h + 1) j"
        using True False by (subst Search_loop.simps) (simp add: h_def Let_def)
      have low: "\<not> f k" if "k < h + 1" for k
        using that mono [of k h] hn False by auto
      have "h + 1 \<le> Search_loop f (h + 1) j \<and> Search_loop f (h + 1) j \<le> j
          \<and> (\<forall>k < Search_loop f (h + 1) j. \<not> f k)
          \<and> (\<forall>k. Search_loop f (h + 1) j \<le> k \<and> k < n \<longrightarrow> f k)"
        using "1.IH"(1) [OF True h_def False mono _ "1.prems"(3) low "1.prems"(5)] hb
        by simp
      then show ?thesis using hb by (simp add: eq)
    next
      case fh: True
      have eq: "Search_loop f i j = Search_loop f i h"
        using True fh by (subst Search_loop.simps) (simp add: h_def Let_def)
      have high: "f k" if "h \<le> k" "k < n" for k
        using that mono [of h k] fh by simp
      have "i \<le> Search_loop f i h \<and> Search_loop f i h \<le> h
          \<and> (\<forall>k < Search_loop f i h. \<not> f k)
          \<and> (\<forall>k. Search_loop f i h \<le> k \<and> k < n \<longrightarrow> f k)"
        using "1.IH"(2) [OF True h_def _ mono hb(1) _ "1.prems"(4) high] fh hn
        by simp
      then show ?thesis using hb by (simp add: eq)
    qed
  qed
qed

lemma sorted_by_id_nth:
  assumes "sorted_by_id ms" "a \<le> b" "b < length ms"
  shows "sint (Id' (ms ! a)) \<le> sint (Id' (ms ! b))"
proof -
  have "map (\<lambda>m. sint (Id' m)) ms ! a \<le> map (\<lambda>m. sint (Id' m)) ms ! b"
    using assms by (simp add: sorted_by_id_def sorted_iff_nth_mono)
  then show ?thesis using assms by simp
qed

lemma Search_sorted:
  assumes "sorted_by_id ms"
  shows "Search (length ms) (\<lambda>i. sint id' \<le> sint (Id' (ms ! i))) \<le> length ms
       \<and> (\<forall>k < Search (length ms) (\<lambda>i. sint id' \<le> sint (Id' (ms ! i))).
              sint (Id' (ms ! k)) < sint id')
       \<and> (\<forall>k. Search (length ms) (\<lambda>i. sint id' \<le> sint (Id' (ms ! i))) \<le> k \<and> k < length ms
              \<longrightarrow> sint id' \<le> sint (Id' (ms ! k)))"
proof -
  let ?f = "\<lambda>i. sint id' \<le> sint (Id' (ms ! i))"
  have mono: "?f b" if "a \<le> b" "b < length ms" "?f a" for a b
    using sorted_by_id_nth [OF assms that(1,2)] that(3) by simp
  have "0 \<le> Search_loop ?f 0 (length ms) \<and> Search_loop ?f 0 (length ms) \<le> length ms
      \<and> (\<forall>k < Search_loop ?f 0 (length ms). \<not> ?f k)
      \<and> (\<forall>k. Search_loop ?f 0 (length ms) \<le> k \<and> k < length ms \<longrightarrow> ?f k)"
    by (rule Search_loop_spec [where n = "length ms"]) (use mono in auto)
  then show ?thesis by (simp add: Search_def not_le)
qed

lemma findMementoById_present:
  assumes srt: "sorted_by_id ms" and k: "k < length ms" "Id' (ms ! k) = id'"
  shows "\<exists>n \<le> k. findMementoById ms id' = (n, True) \<and> Id' (ms ! n) = id'"
proof -
  define n where "n = Search (length ms) (\<lambda>i. sint id' \<le> sint (Id' (ms ! i)))"
  note S = Search_sorted [OF srt, of id', folded n_def]
  have nk: "n \<le> k"
  proof (rule ccontr)
    assume "\<not> n \<le> k"
    then have "sint (Id' (ms ! k)) < sint id'" using S by simp
    then show False using k by simp
  qed
  then have nl: "n < length ms" using k by simp
  have "sint id' \<le> sint (Id' (ms ! n))" using S nl by simp
  moreover have "sint (Id' (ms ! n)) \<le> sint id'"
    using sorted_by_id_nth [OF srt nk k(1)] k(2) by simp
  ultimately have "sint (Id' (ms ! n)) = sint id'" by simp
  then have "Id' (ms ! n) = id'" by (rule signed_word_eqI)
  then have "findMementoById ms id' = (n, True)"
    using nl by (simp add: findMementoById_def Let_def n_def)
  then show ?thesis using nk \<open>Id' (ms ! n) = id'\<close> by blast
qed

lemma findMementoById_found:
  assumes "findMementoById ms id' = (n, True)"
  shows "n < length ms \<and> Id' (ms ! n) = id'"
  using assms by (auto simp: findMementoById_def Let_def split: if_splits)

lemma findMementoById_absent:
  assumes "id' \<notin> Id' ` set ms"
  shows "findMementoById ms id' = (0, False)"
proof -
  have "Id' (ms ! n) \<noteq> id'" if "n < length ms" for n
    using assms that nth_mem [OF that] by force
  then show ?thesis by (simp add: findMementoById_def Let_def)
qed

text \<open>
  Claim C4. On a sequence sorted ascending by id, \<^verbatim>\<open>findMementoById\<close> returns \<open>(n, True)\<close>
  with the record at index \<open>n\<close> carrying the id exactly when some record of the sequence
  has that id, and \<open>(0, False)\<close> otherwise.
\<close>

theorem findMementoById_correct:
  assumes "sorted_by_id ms"
  shows "(id' \<in> Id' ` set ms \<longrightarrow>
            (\<exists>n < length ms. findMementoById ms id' = (n, True) \<and> Id' (ms ! n) = id'))
       \<and> (id' \<notin> Id' ` set ms \<longrightarrow> findMementoById ms id' = (0, False))
       \<and> (\<forall>n. findMementoById ms id' = (n, True) \<longrightarrow> n < length ms \<and> Id' (ms ! n) = id')"
proof (intro conjI impI allI)
  assume "id' \<in> Id' ` set ms"
  then obtain k where k: "k < length ms" "Id' (ms ! k) = id'"
    by (auto simp: in_set_conv_nth)
  from findMementoById_present [OF assms k]
  show "\<exists>n < length ms. findMementoById ms id' = (n, True) \<and> Id' (ms ! n) = id'"
    using k(1) by auto
next
  assume "id' \<notin> Id' ` set ms"
  then show "findMementoById ms id' = (0, False)" by (rule findMementoById_absent)
next
  fix n assume "findMementoById ms id' = (n, True)"
  then show "n < length ms" "Id' (ms ! n) = id'"
    using findMementoById_found by blast+
qed

theorem findMementoById_correct_witness:
  "sorted_by_id [\<lparr>Id' = 1, Msg = ''a'', Time = 0, Priority = 1\<rparr>,
                 \<lparr>Id' = 2, Msg = ''b'', Time = 0, Priority = 1\<rparr>,
                 \<lparr>Id' = 4, Msg = ''c'', Time = 0, Priority = 1\<rparr>]
   \<and> findMementoById [\<lparr>Id' = 1, Msg = ''a'', Time = 0, Priority = 1\<rparr>,
                 \<lparr>Id' = 2, Msg = ''b'', Time = 0, Priority = 1\<rparr>,
                 \<lparr>Id' = 4, Msg = ''c'', Time = 0, Priority = 1\<rparr>] 4 = (2, True)
   \<and> findMementoById [\<lparr>Id' = 1, Msg = ''a'', Time = 0, Priority = 1\<rparr>,
                 \<lparr>Id' = 2, Msg = ''b'', Time = 0, Priority = 1\<rparr>,
                 \<lparr>Id' = 4, Msg = ''c'', Time = 0, Priority = 1\<rparr>] 3 = (0, False)"
  using findMementoById_correct [of "[\<lparr>Id' = 1, Msg = ''a'', Time = 0, Priority = 1\<rparr>,
                 \<lparr>Id' = 2, Msg = ''b'', Time = 0, Priority = 1\<rparr>,
                 \<lparr>Id' = 4, Msg = ''c'', Time = 0, Priority = 1\<rparr>]" 3]
  by (simp add: sorted_by_id_def findMementoById_def Search_def Search_loop.simps)

section \<open>Input and output that succeed\<close>

lemma readMementos_Holds: "\<not> open_fails e \<Longrightarrow> readMementos e (Holds ms) = Inr ms"
  by (simp add: readMementos_def)

lemma writeMementos_ok:
  "\<not> mkdir_fails e \<Longrightarrow> \<not> create_fails e \<Longrightarrow> write_fails e = None
   \<Longrightarrow> writeMementos e ms f = (None, Holds ms)"
  by (simp add: writeMementos_def createFile_def)

lemma parseId_Cons:
  "ParseInt idstr = Inr id' \<Longrightarrow>
   parseId (cmd # idstr # rest) = (if sint id' < 0 then Inl (InvalidId idstr) else Inr id')"
  by (simp add: parseId_def)

section \<open>Fetch\<close>

text \<open>
  Claim C10. On a non-empty store that can be read, the index \<^verbatim>\<open>fetch\<close> draws is below the
  length of the sequence, \<^verbatim>\<open>fetch\<close> prints the message of the record at that index, a
  record of the store, and does not reach the out-of-range branch.
\<close>

theorem fetch_in_bounds:
  assumes "ms \<noteq> []" and "\<not> open_fails e"
  shows "Intn (rnd e) (length ms) < length ms
       \<and> ms ! Intn (rnd e) (length ms) \<in> set ms
       \<and> fetch e (Holds ms) = (None, Some (Msg (ms ! Intn (rnd e) (length ms))))"
proof -
  have len: "0 < length ms" using assms(1) by simp
  then have lt: "Intn (rnd e) (length ms) < length ms" by (simp add: Intn_def)
  moreover have "\<not> length ms < 1" using len by simp
  ultimately show ?thesis
    using assms(2) by (simp add: fetch_def readMementos_Holds Let_def)
qed

theorem fetch_in_bounds_witness:
  "[\<lparr>Id' = 1, Msg = ''a'', Time = 0, Priority = 1\<rparr>,
    \<lparr>Id' = 2, Msg = ''b'', Time = 0, Priority = 1\<rparr>,
    \<lparr>Id' = 4, Msg = ''c'', Time = 0, Priority = 1\<rparr>] \<noteq> []
   \<and> \<not> open_fails \<lparr>open_fails = False, mkdir_fails = False, create_fails = False,
                     write_fails = None, now = 0, rnd = 7\<rparr>
   \<and> fetch \<lparr>open_fails = False, mkdir_fails = False, create_fails = False,
              write_fails = None, now = 0, rnd = 7\<rparr>
        (Holds [\<lparr>Id' = 1, Msg = ''a'', Time = 0, Priority = 1\<rparr>,
                \<lparr>Id' = 2, Msg = ''b'', Time = 0, Priority = 1\<rparr>,
                \<lparr>Id' = 4, Msg = ''c'', Time = 0, Priority = 1\<rparr>])
     = (None, Some ''b'')"
  using fetch_in_bounds [of "[\<lparr>Id' = 1, Msg = ''a'', Time = 0, Priority = 1\<rparr>,
    \<lparr>Id' = 2, Msg = ''b'', Time = 0, Priority = 1\<rparr>,
    \<lparr>Id' = 4, Msg = ''c'', Time = 0, Priority = 1\<rparr>]"
    "\<lparr>open_fails = False, mkdir_fails = False, create_fails = False,
                     write_fails = None, now = 0, rnd = 7\<rparr>"]
  by (simp add: Intn_def)

section \<open>Ids that are not in the store\<close>

text \<open>
  Claim C5, as stated, fails: \<^verbatim>\<open>parseId\<close> rejects a negative id before the store is
  searched, so \<^verbatim>\<open>rm -1\<close> on the empty store fails with the invalid-id error, not with
  the not-found error.
\<close>

theorem remove_negative_id_counterexample:
  "remove \<lparr>open_fails = False, mkdir_fails = False, create_fails = False,
            write_fails = None, now = 0, rnd = 0\<rparr> [''rm'', ''-1''] (Holds [])
     = (Some (InvalidId ''-1''), Holds [])
   \<and> ParseInt ''-1'' = Inr (- 1)
   \<and> InvalidId ''-1'' \<noteq> NotFound (- 1)"
  by (simp add: remove_def parseId_def ParseInt_def ParseUint_def digit_def)

text \<open>
  Claim C5, amended. For an id that no record of the store has, given in decimal as
  the id argument, \<^verbatim>\<open>remove\<close> and \<^verbatim>\<open>modify\<close> fail and leave the file as it was, provided
  it can be opened: with the not-found error when the id is not negative, with the
  invalid-id error when it is.
\<close>

theorem remove_modify_absent:
  assumes "ParseInt idstr = Inr id'" and "id' \<notin> Id' ` set ms" and "\<not> open_fails e"
  shows "remove e (cmd # idstr # rest) (Holds ms)
           = (Some (if sint id' < 0 then InvalidId idstr else NotFound id'), Holds ms)
       \<and> modify e (cmd # idstr # arg # rest) (Holds ms)
           = (Some (if sint id' < 0 then InvalidId idstr else NotFound id'), Holds ms)"
  using assms
  by (simp add: remove_def modify_def parseId_Cons readMementos_Holds findMementoById_absent)

theorem remove_modify_absent_witness:
  "ParseInt ''3'' = Inr 3
   \<and> (3 :: 64 word) \<notin> Id' ` set [\<lparr>Id' = 1, Msg = ''a'', Time = 0, Priority = 1\<rparr>,
                                  \<lparr>Id' = 2, Msg = ''b'', Time = 0, Priority = 1\<rparr>]
   \<and> \<not> open_fails \<lparr>open_fails = False, mkdir_fails = False, create_fails = False,
                     write_fails = None, now = 0, rnd = 0\<rparr>
   \<and> remove \<lparr>open_fails = False, mkdir_fails = False, create_fails = False,
               write_fails = None, now = 0, rnd = 0\<rparr> [''rm'', ''3'']
        (Holds [\<lparr>Id' = 1, Msg = ''a'', Time = 0, Priority = 1\<rparr>,
                \<lparr>Id' = 2, Msg = ''b'', Time = 0, Priority = 1\<rparr>])
      = (Some (NotFound 3), Holds [\<lparr>Id' = 1, Msg = ''a'', Time = 0, Priority = 1\<rparr>,
                                   \<lparr>Id' = 2, Msg = ''b'', Time = 0, Priority = 1\<rparr>])
   \<and> modify \<lparr>open_fails = False, mkdir_fails = False, create_fails = False,
               write_fails = None, now = 0, rnd = 0\<rparr> [''mod'', ''3'', ''priority:5'']
        (Holds [\<lparr>Id' = 1, Msg = ''a'', Time = 0, Priority = 1\<rparr>,
                \<lparr>Id' = 2, Msg = ''b'', Time = 0, Priority = 1\<rparr>])
      = (Some (NotFound 3), Holds [\<lparr>Id' = 1, Msg = ''a'', Time = 0, Priority = 1\<rparr>,
                                   \<lparr>Id' = 2, Msg = ''b'', Time = 0, Priority = 1\<rparr>])"
  using remove_modify_absent [of "''3''" 3
      "[\<lparr>Id' = 1, Msg = ''a'', Time = 0, Priority = 1\<rparr>,
        \<lparr>Id' = 2, Msg = ''b'', Time = 0, Priority = 1\<rparr>]"
      "\<lparr>open_fails = False, mkdir_fails = False, create_fails = False,
        write_fails = None, now = 0, rnd = 0\<rparr>" "''rm''" "[]" "''priority:5''"]
    remove_modify_absent [of "''3''" 3
      "[\<lparr>Id' = 1, Msg = ''a'', Time = 0, Priority = 1\<rparr>,
        \<lparr>Id' = 2, Msg = ''b'', Time = 0, Priority = 1\<rparr>]"
      "\<lparr>open_fails = False, mkdir_fails = False, create_fails = False,
        write_fails = None, now = 0, rnd = 0\<rparr>" "''mod''" "[]" "''priority:5''"]
  by (simp add: ParseInt_def ParseUint_def digit_def)

section \<open>Add\<close>

lemma sint_MaxInt: "sint MaxInt = 9223372036854775807"
  by (simp add: MaxInt_def)

lemma sint_succ:
  fixes x :: "64 word"
  assumes "x \<noteq> MaxInt"
  shows "sint (x + 1) = sint x + 1"
proof -
  have "sint x \<noteq> sint MaxInt" using assms by (simp add: word_eq_iff_signed [symmetric])
  moreover have "sint x < 2 ^ (LENGTH(64) - 1)" by (rule sint_lt)
  moreover have "- (2 ^ (LENGTH(64) - 1)) \<le> sint x" by (rule sint_ge)
  ultimately have r: "- (2 ^ 63) \<le> sint x + 1" "sint x + 1 < 2 ^ 63"
    by (simp_all add: sint_MaxInt)
  have "sint (x + 1) = signed_take_bit (LENGTH(64) - 1) (sint x + sint (1 :: 64 word))"
    by (rule sint_word_ariths)
  also have "\<dots> = signed_take_bit 63 (sint x + 1)" by simp
  also have "\<dots> = sint x + 1"
    using r by (simp add: signed_take_bit_int_eq_self)
  finally show ?thesis .
qed

lemma ascending_le_last:
  assumes "ascending ms" and "m \<in> set ms"
  shows "sint (Id' m) \<le> sint (Id' (last ms))"
proof -
  from assms(2) obtain k where k: "k < length ms" "ms ! k = m"
    by (auto simp: in_set_conv_nth)
  have ne: "ms \<noteq> []" using assms(2) by auto
  have s: "sorted (map (\<lambda>m. sint (Id' m)) ms)"
    using assms(1) unfolding ascending_def by (rule strict_sorted_imp_sorted)
  have "map (\<lambda>m. sint (Id' m)) ms ! k \<le> map (\<lambda>m. sint (Id' m)) ms ! (length ms - 1)"
    using s k(1) by (intro sorted_nth_mono) simp_all
  then show ?thesis using k ne by (simp add: last_conv_nth)
qed

lemma ascending_Max:
  assumes "ascending ms" and "ms \<noteq> []"
  shows "Max ((\<lambda>m. sint (Id' m)) ` set ms) = sint (Id' (last ms))"
proof (rule Max_eqI)
  show "finite ((\<lambda>m. sint (Id' m)) ` set ms)" by simp
  show "y \<le> sint (Id' (last ms))" if "y \<in> (\<lambda>m. sint (Id' m)) ` set ms" for y
    using that ascending_le_last [OF assms(1)] by auto
  show "sint (Id' (last ms)) \<in> (\<lambda>m. sint (Id' m)) ` set ms"
    using assms(2) by simp
qed

lemma Join_nonempty: "Join xs sep \<noteq> [] \<Longrightarrow> xs \<noteq> []"
  by (cases xs) simp_all

lemma add_Holds:
  assumes "2 \<le> length args" and "\<not> open_fails e"
  shows "add e args (Holds ms)
       = writeMementos e
           (ms @ [\<lparr>Id' = (if ms = [] then 1 else Id' (last ms) + 1), Msg = Join (tl args) '' '',
                   Time = now e, Priority = 1\<rparr>]) (Holds ms)"
proof -
  have "\<not> length args < 2" using assms(1) by simp
  then show ?thesis
    using assms(2)
    by (cases "ms = []") (simp_all add: add_def readMementos_Holds Let_def last_conv_nth)
qed

text \<open>
  Claim C3, as stated, fails: the new id is the id of the last record plus 1, not the
  largest id plus 1. With the ids 5 and 2 stored in this order the new record gets the
  id 3, while the largest id plus 1 is 6. And the sum wraps around: after the largest
  \<^verbatim>\<open>int\<close> comes the smallest.
\<close>

theorem add_last_not_max_counterexample:
  "add \<lparr>open_fails = False, mkdir_fails = False, create_fails = False,
         write_fails = None, now = 1700000000, rnd = 0\<rparr> [''add'', ''buy'', ''milk'']
     (Holds [\<lparr>Id' = 5, Msg = ''a'', Time = 0, Priority = 1\<rparr>,
             \<lparr>Id' = 2, Msg = ''b'', Time = 0, Priority = 1\<rparr>])
   = (None, Holds [\<lparr>Id' = 5, Msg = ''a'', Time = 0, Priority = 1\<rparr>,
                   \<lparr>Id' = 2, Msg = ''b'', Time = 0, Priority = 1\<rparr>,
                   \<lparr>Id' = 3, Msg = ''buy milk'', Time = 1700000000, Priority = 1\<rparr>])
   \<and> Max (set (map (\<lambda>m. sint (Id' m))
         [\<lparr>Id' = 5, Msg = ''a'', Time = 0, Priority = 1\<rparr>,
          \<lparr>Id' = 2, Msg = ''b'', Time = 0, Priority = 1\<rparr>])) + 1 = 6
   \<and> add \<lparr>open_fails = False, mkdir_fails = False, create_fails = False,
         write_fails = None, now = 1700000000, rnd = 0\<rparr> [''add'', ''buy'', ''milk'']
     (Holds [\<lparr>Id' = 9223372036854775807, Msg = ''a'', Time = 0, Priority = 1\<rparr>])
   = (None, Holds [\<lparr>Id' = 9223372036854775807, Msg = ''a'', Time = 0, Priority = 1\<rparr>,
                   \<lparr>Id' = - 9223372036854775808, Msg = ''buy milk'', Time = 1700000000,
                     Priority = 1\<rparr>])
   \<and> sint (- 9223372036854775808 :: 64 word) = - 9223372036854775808
   \<and> sint (9223372036854775807 :: 64 word) + 1 = 9223372036854775808"
  by (simp add: add_def readMementos_def writeMementos_def createFile_def)

text \<open>
  Claim C3, amended. With a non-empty message and input and output that succeed,
  \<^verbatim>\<open>add\<close> leaves the records of the store as they were and appends one record, with the
  current time, priority 1 and the id of the last record plus 1 in 64-bit arithmetic, or
  1 on the empty store. Where the ids are strictly ascending and the last id is not the
  largest \<^verbatim>\<open>int\<close>, that id is the largest id of the store plus 1.
\<close>

theorem add_appends:
  assumes "Join (tl args) '' '' \<noteq> []"
    and "\<not> open_fails e" and "\<not> mkdir_fails e" and "\<not> create_fails e"
    and "write_fails e = None"
  shows "(\<exists>m. add e args (Holds ms) = (None, Holds (ms @ [m]))
            \<and> Id' m = (if ms = [] then 1 else Id' (last ms) + 1)
            \<and> Time m = now e \<and> Priority m = 1)
       \<and> (ascending ms \<and> ms \<noteq> [] \<and> Id' (last ms) \<noteq> MaxInt \<longrightarrow>
            sint (Id' (last ms) + 1) = Max ((\<lambda>m. sint (Id' m)) ` set ms) + 1)"
proof -
  have "tl args \<noteq> []" using assms(1) by (rule Join_nonempty)
  then have "2 \<le> length args" by (cases args) (simp_all add: Suc_le_eq)
  then have "add e args (Holds ms)
      = (None, Holds (ms @ [\<lparr>Id' = (if ms = [] then 1 else Id' (last ms) + 1),
                              Msg = Join (tl args) '' '', Time = now e, Priority = 1\<rparr>]))"
    using assms(2-5) by (simp add: add_Holds writeMementos_ok)
  then have "\<exists>m. add e args (Holds ms) = (None, Holds (ms @ [m]))
      \<and> Id' m = (if ms = [] then 1 else Id' (last ms) + 1)
      \<and> Time m = now e \<and> Priority m = 1"
    by (intro exI [of _ "\<lparr>Id' = (if ms = [] then 1 else Id' (last ms) + 1),
                          Msg = Join (tl args) '' '', Time = now e, Priority = 1\<rparr>"]) simp
  then show ?thesis by (simp add: sint_succ ascending_Max)
qed

theorem add_appends_witness:
  "Join (tl [''add'', ''call'', ''mom'']) '' '' \<noteq> []
   \<and> add \<lparr>open_fails = False, mkdir_fails = False, create_fails = False,
            write_fails = None, now = 1700000000, rnd = 0\<rparr> [''add'', ''call'', ''mom'']
        (Holds [\<lparr>Id' = 1, Msg = ''buy milk'', Time = 0, Priority = 1\<rparr>])
      = (None, Holds [\<lparr>Id' = 1, Msg = ''buy milk'', Time = 0, Priority = 1\<rparr>,
                      \<lparr>Id' = 2, Msg = ''call mom'', Time = 1700000000, Priority = 1\<rparr>])
   \<and> ascending [\<lparr>Id' = 1, Msg = ''buy milk'', Time = 0, Priority = 1\<rparr>]
   \<and> Id' (last [\<lparr>Id' = 1, Msg = ''buy milk'', Time = 0, Priority = 1\<rparr>]) \<noteq> MaxInt
   \<and> sint (2 :: 64 word)
      = Max ((\<lambda>m. sint (Id' m)) ` set [\<lparr>Id' = 1, Msg = ''buy milk'', Time = 0, Priority = 1\<rparr>]) + 1"
  using add_appends [of "[''add'', ''call'', ''mom'']"
      "\<lparr>open_fails = False, mkdir_fails = False, create_fails = False,
        write_fails = None, now = 1700000000, rnd = 0\<rparr>"
      "[\<lparr>Id' = 1, Msg = ''buy milk'', Time = 0, Priority = 1\<rparr>]"]
  by (simp add: ascending_def MaxInt_def add_def readMementos_def writeMementos_def
      createFile_def)

text \<open>
  Claim C8, as stated, fails: \<^verbatim>\<open>add\<close> checks only that a message argument is there.
  \<^verbatim>\<open>mementor add ""\<close> passes the check and appends a record with the empty message.
\<close>

theorem add_empty_message_counterexample:
  "Join (tl [''add'', '''']) '' '' = []
   \<and> add \<lparr>open_fails = False, mkdir_fails = False, create_fails = False,
            write_fails = None, now = 1700000000, rnd = 0\<rparr> [''add'', ''''] (Holds [])
      = (None, Holds [\<lparr>Id' = 1, Msg = [], Time = 1700000000, Priority = 1\<rparr>])"
  by (simp add: add_def readMementos_def writeMementos_def createFile_def)

text \<open>
  Claim C8, amended. \<^verbatim>\<open>add\<close> fails with the missing-message error exactly when no
  message argument is given (fewer than two arguments), and then leaves the file as it
  was. When a message argument is given and the message text is the empty string,
  \<^verbatim>\<open>add\<close> does not reject it: with input and output that succeed it returns no error
  and appends a record with the empty message, on every store.
\<close>

theorem add_missing_message:
  "(fst (add e args f) = Some MissingMessage \<longleftrightarrow> length args < 2)
   \<and> (length args < 2 \<longrightarrow> add e args f = (Some MissingMessage, f))
   \<and> (2 \<le> length args \<and> Join (tl args) '' '' = []
        \<and> \<not> open_fails e \<and> \<not> mkdir_fails e \<and> \<not> create_fails e \<and> write_fails e = None
      \<longrightarrow> add e args (Holds ms)
            = (None, Holds (ms @ [\<lparr>Id' = (if ms = [] then 1 else Id' (last ms) + 1),
                                    Msg = [], Time = now e, Priority = 1\<rparr>])))"
proof (intro conjI impI)
  show "(fst (add e args f) = Some MissingMessage) = (length args < 2)"
    by (auto simp: add_def Let_def readMementos_def writeMementos_def createFile_def
        split: sum.splits dataFile.splits option.splits residue.splits if_splits)
next
  assume "length args < 2"
  then show "add e args f = (Some MissingMessage, f)" by (simp add: add_def)
next
  assume h: "2 \<le> length args \<and> Join (tl args) '' '' = []
        \<and> \<not> open_fails e \<and> \<not> mkdir_fails e \<and> \<not> create_fails e \<and> write_fails e = None"
  then have "add e args (Holds ms)
      = writeMementos e
           (ms @ [\<lparr>Id' = (if ms = [] then 1 else Id' (last ms) + 1), Msg = Join (tl args) '' '',
                   Time = now e, Priority = 1\<rparr>]) (Holds ms)"
    by (intro add_Holds) simp_all
  with h show "add e args (Holds ms)
      = (None, Holds (ms @ [\<lparr>Id' = (if ms = [] then 1 else Id' (last ms) + 1),
                              Msg = [], Time = now e, Priority = 1\<rparr>]))"
    by (simp add: writeMementos_ok)
qed

theorem add_missing_message_witness:
  "length [''add''] < 2
   \<and> add \<lparr>open_fails = False, mkdir_fails = False, create_fails = False,
            write_fails = None, now = 1700000000, rnd = 0\<rparr> [''add'']
        (Holds [\<lparr>Id' = 1, Msg = ''buy milk'', Time = 10, Priority = 1\<rparr>])
      = (Some MissingMessage, Holds [\<lparr>Id' = 1, Msg = ''buy milk'', Time = 10, Priority = 1\<rparr>])
   \<and> 2 \<le> length [''add'', []] \<and> Join (tl [''add'', []]) '' '' = []
   \<and> add \<lparr>open_fails = False, mkdir_fails = False, create_fails = False,
            write_fails = None, now = 1700000000, rnd = 0\<rparr> [''add'', []]
        (Holds [\<lparr>Id' = 1, Msg = ''buy milk'', Time = 10, Priority = 1\<rparr>])
      = (None, Holds [\<lparr>Id' = 1, Msg = ''buy milk'', Time = 10, Priority = 1\<rparr>,
                      \<lparr>Id' = 2, Msg = [], Time = 1700000000, Priority = 1\<rparr>])"
  using add_missing_message [of "\<lparr>open_fails = False, mkdir_fails = False, create_fails = False,
            write_fails = None, now = 1700000000, rnd = 0\<rparr>" "[''add'']"
          "Holds [\<lparr>Id' = 1, Msg = ''buy milk'', Time = 10, Priority = 1\<rparr>]"
          "[\<lparr>Id' = 1, Msg = ''buy milk'', Time = 10, Priority = 1\<rparr>]"]
    add_missing_message [of "\<lparr>open_fails = False, mkdir_fails = False, create_fails = False,
            write_fails = None, now = 1700000000, rnd = 0\<rparr>" "[''add'', []]"
          "Holds [\<lparr>Id' = 1, Msg = ''buy milk'', Time = 10, Priority = 1\<rparr>]"
          "[\<lparr>Id' = 1, Msg = ''buy milk'', Time = 10, Priority = 1\<rparr>]"]
  by simp

section \<open>Modify\<close>

lemma Split_no_sep: "c \<notin> set s \<Longrightarrow> Split s c = [s]"
  by (induction s) auto

lemma Split_append: "c \<notin> set a \<Longrightarrow> Split (a @ c # b) c = a # Split b c"
  by (induction a) auto

lemma Split_nonempty: "Split s c \<noteq> []"
  by (induction s) (auto split: list.splits)

lemma ParseUint_loop_digits:
  "ParseUint_loop s n = Inr un \<Longrightarrow> c \<in> set s \<Longrightarrow> digit c \<noteq> None"
  by (induction s arbitrary: n) (auto split: option.splits if_splits)

lemma digit_colon: "digit CHR '':'' = None"
  by (simp add: digit_def)

lemma ParseInt_no_colon:
  assumes "ParseInt s = Inr v"
  shows "CHR '':'' \<notin> set s"
proof
  assume c: "CHR '':'' \<in> set s"
  from assms obtain x xs where s: "s = x # xs"
    by (cases s) (simp_all add: ParseInt_def)
  define s' where "s' = (if x = CHR ''+'' \<or> x = CHR ''-'' then xs else s)"
  from assms obtain un where "ParseUint s' = Inr un"
    by (auto simp: ParseInt_def s s'_def Let_def split: sum.splits if_splits)
  then have un: "ParseUint_loop s' 0 = Inr un"
    by (simp add: ParseUint_def split: if_splits)
  have "CHR '':'' \<in> set s'"
    using c by (auto simp: s s'_def split: if_splits)
  from ParseUint_loop_digits [OF un this] show False
    by (simp add: digit_colon)
qed

lemma Split_field_value:
  assumes "CHR '':'' \<notin> set field" and "CHR '':'' \<notin> set val"
  shows "Split (field @ '':'' @ val) CHR '':'' = [field, val]"
  using assms by (simp add: Split_append Split_no_sep)

text \<open>
  \<^verbatim>\<open>modify\<close> reads the first two segments of its third argument and nothing after them.
\<close>

lemma modify_reads_two_segments:
  assumes "Split a CHR '':'' = x # y # r" and "Split b CHR '':'' = x # y # r'"
  shows "modify e (c # i # a # rest) f = modify e (c # i # b # rest) f"
  using assms
  by (simp add: modify_def parseId_def Let_def split: sum.split prod.split)

text \<open>
  In the message branch \<^verbatim>\<open>modify\<close> assigns \<^verbatim>\<open>mod[0]\<close>, the field key, where the priority
  branch reads \<^verbatim>\<open>mod[1]\<close>, the value. The next two theorems run it.
\<close>

text \<open>
  Claim C1 fails on the code: \<^verbatim>\<open>mementor mod 1 msg:new\<close> on a store whose record 1 has the
  message \<^verbatim>\<open>old\<close> stores the message \<^verbatim>\<open>msg\<close>, the field key, not the value \<^verbatim>\<open>new\<close>.
\<close>

theorem modify_message_stores_field_key:
  "modify \<lparr>open_fails = False, mkdir_fails = False, create_fails = False,
            write_fails = None, now = 0, rnd = 0\<rparr>
     [''mod'', ''1'', ''msg:new'']
     (Holds [\<lparr>Id' = 1, Msg = ''old'', Time = 0, Priority = 1\<rparr>])
   = (None, Holds [\<lparr>Id' = 1, Msg = ''msg'', Time = 0, Priority = 1\<rparr>])"
  by (simp add: modify_def parseId_def ParseInt_def ParseUint_def digit_def readMementos_def
      findMementoById_def Search_def Search_loop.simps rePriority_def reMsg_def
      writeMementos_def createFile_def)

text \<open>
  Claim C9 fails on the code: for \<^verbatim>\<open>mementor mod 1 m:a:b\<close> the text between the first and
  the second colon is \<^verbatim>\<open>a\<close>, and the message stored is \<^verbatim>\<open>m\<close>.
\<close>

theorem modify_message_second_segment_unread:
  "Split ''m:a:b'' CHR '':'' = [''m'', ''a'', ''b'']
   \<and> modify \<lparr>open_fails = False, mkdir_fails = False, create_fails = False,
               write_fails = None, now = 0, rnd = 0\<rparr>
        [''mod'', ''1'', ''m:a:b'']
        (Holds [\<lparr>Id' = 1, Msg = ''old'', Time = 0, Priority = 1\<rparr>])
      = (None, Holds [\<lparr>Id' = 1, Msg = ''m'', Time = 0, Priority = 1\<rparr>])"
  by (simp add: modify_def parseId_def ParseInt_def ParseUint_def digit_def readMementos_def
      findMementoById_def Search_def Search_loop.simps rePriority_def reMsg_def
      writeMementos_def createFile_def)

text \<open>
  Claim C7, as stated, fails. The lookup is a binary search: in a store that is not
  sorted by id it can miss an id that is there (ids 5 and 2 in this order, id 2). And
  \<^verbatim>\<open>parseId\<close> rejects a negative id, also one that a record has.
\<close>

theorem modify_priority_counterexample:
  "modify \<lparr>open_fails = False, mkdir_fails = False, create_fails = False,
            write_fails = None, now = 0, rnd = 0\<rparr>
     [''mod'', ''2'', ''priority:5'']
     (Holds [\<lparr>Id' = 5, Msg = ''a'', Time = 0, Priority = 1\<rparr>,
             \<lparr>Id' = 2, Msg = ''b'', Time = 0, Priority = 1\<rparr>])
   = (Some (NotFound 2), Holds [\<lparr>Id' = 5, Msg = ''a'', Time = 0, Priority = 1\<rparr>,
                                \<lparr>Id' = 2, Msg = ''b'', Time = 0, Priority = 1\<rparr>])
   \<and> modify \<lparr>open_fails = False, mkdir_fails = False, create_fails = False,
            write_fails = None, now = 0, rnd = 0\<rparr>
     [''mod'', ''-5'', ''priority:5'']
     (Holds [\<lparr>Id' = - 5, Msg = ''a'', Time = 0, Priority = 1\<rparr>])
   = (Some (InvalidId ''-5''), Holds [\<lparr>Id' = - 5, Msg = ''a'', Time = 0, Priority = 1\<rparr>])"
  by (simp add: modify_def parseId_def ParseInt_def ParseUint_def digit_def readMementos_def
      findMementoById_def Search_def Search_loop.simps rePriority_def reMsg_def
      writeMementos_def createFile_def)

text \<open>
  Claim C7, amended. In a store sorted by id, for an id that is not negative and that a
  record has, \<^verbatim>\<open>modify\<close> with a field key that begins with \<^verbatim>\<open>pri\<close> and a value that parses
  as the number \<open>v\<close> writes the sequence in which the priority of a record with that id
  is \<open>v\<close> and nothing else has changed: the other fields of the record and all the
  other records are as before. Input and output are assumed to succeed.
\<close>

theorem modify_priority:
  assumes "sorted_by_id ms" and "id' \<in> Id' ` set ms"
    and "ParseInt idstr = Inr id'" and "0 \<le> sint id'"
    and "rePriority field" and "CHR '':'' \<notin> set field" and "ParseInt val = Inr v"
    and "\<not> open_fails e" and "\<not> mkdir_fails e" and "\<not> create_fails e"
    and "write_fails e = None"
  shows "\<exists>n < length ms. Id' (ms ! n) = id'
           \<and> modify e (cmd # idstr # (field @ '':'' @ val) # rest) (Holds ms)
               = (None, Holds (ms[n := (ms ! n)\<lparr>Priority := v\<rparr>]))"
proof -
  from assms(2) obtain k where k: "k < length ms" "Id' (ms ! k) = id'"
    by (auto simp: in_set_conv_nth)
  from findMementoById_present [OF assms(1) k]
  obtain n where n: "n \<le> k" "findMementoById ms id' = (n, True)" "Id' (ms ! n) = id'"
    by blast
  have sp: "Split (field @ '':'' @ val) CHR '':'' = [field, val]"
    using assms(6) ParseInt_no_colon [OF assms(7)] by (rule Split_field_value)
  have nl: "n < length ms" using n(1) k(1) by simp
  have "modify e (cmd # idstr # (field @ '':'' @ val) # rest) (Holds ms)
          = (None, Holds (ms[n := (ms ! n)\<lparr>Priority := v\<rparr>]))"
    using assms(3,4,5,7,8,9,10,11) n(2) sp
    by (simp add: modify_def parseId_Cons readMementos_Holds writeMementos_ok)
  with nl n(3) show ?thesis by blast
qed

theorem modify_priority_witness:
  "sorted_by_id [\<lparr>Id' = 1, Msg = ''buy milk'', Time = 7, Priority = 1\<rparr>,
                 \<lparr>Id' = 2, Msg = ''call mom'', Time = 8, Priority = 1\<rparr>]
   \<and> ParseInt ''2'' = Inr 2 \<and> ParseInt ''5'' = Inr 5 \<and> rePriority ''priority''
   \<and> modify \<lparr>open_fails = False, mkdir_fails = False, create_fails = False,
               write_fails = None, now = 0, rnd = 0\<rparr>
        [''mod'', ''2'', ''priority:5'']
        (Holds [\<lparr>Id' = 1, Msg = ''buy milk'', Time = 7, Priority = 1\<rparr>,
                \<lparr>Id' = 2, Msg = ''call mom'', Time = 8, Priority = 1\<rparr>])
      = (None, Holds [\<lparr>Id' = 1, Msg = ''buy milk'', Time = 7, Priority = 1\<rparr>,
                      \<lparr>Id' = 2, Msg = ''call mom'', Time = 8, Priority = 5\<rparr>])"
  using modify_priority [of "[\<lparr>Id' = 1, Msg = ''buy milk'', Time = 7, Priority = 1\<rparr>,
                 \<lparr>Id' = 2, Msg = ''call mom'', Time = 8, Priority = 1\<rparr>]" 2 "''2''"
      "''priority''" "''5''" 5
      "\<lparr>open_fails = False, mkdir_fails = False, create_fails = False,
               write_fails = None, now = 0, rnd = 0\<rparr>" "''mod''" "[]"]
  by (simp add: sorted_by_id_def modify_def parseId_def ParseInt_def ParseUint_def digit_def
      readMementos_def findMementoById_def Search_def Search_loop.simps rePriority_def
      reMsg_def writeMementos_def createFile_def)

section \<open>The order of the ids\<close>

lemma ascending_sorted_by_id: "ascending ms \<Longrightarrow> sorted_by_id ms"
  unfolding ascending_def sorted_by_id_def by (rule strict_sorted_imp_sorted)

lemma ascending_snoc:
  assumes "ascending ms" and "ms = [] \<or> Id' (last ms) \<noteq> MaxInt"
  shows "ascending (ms @ [\<lparr>Id' = (if ms = [] then 1 else Id' (last ms) + 1), Msg = s,
                           Time = t, Priority = p\<rparr>])"
proof (cases "ms = []")
  case True
  then show ?thesis by (simp add: ascending_def)
next
  case False
  with assms(2) have nm: "Id' (last ms) \<noteq> MaxInt" by simp
  have "sint (Id' m) < sint (Id' (last ms) + 1)" if "m \<in> set ms" for m
    using ascending_le_last [OF assms(1) that] sint_succ [OF nm] by simp
  then show ?thesis
    using assms(1) False by (simp add: ascending_def sorted_wrt_append)
qed

lemma ascending_remove:
  assumes "ascending ms"
  shows "ascending (take n ms @ drop (n + 1) ms)"
proof (cases "n < length ms")
  case False
  then show ?thesis using assms by simp
next
  case True
  let ?g = "\<lambda>m. sint (Id' m)"
  have "ms = take n ms @ ms ! n # drop (Suc n) ms"
    using True by (rule id_take_nth_drop)
  then have "sorted_wrt (<) (map ?g (take n ms) @ ?g (ms ! n) # map ?g (drop (Suc n) ms))"
    using assms unfolding ascending_def by (metis list.simps(9) map_append)
  then have "sorted_wrt (<) (map ?g (take n ms) @ map ?g (drop (Suc n) ms))"
    by (auto simp: sorted_wrt_append)
  then show ?thesis by (simp add: ascending_def)
qed

lemma stored_Holds: "stored (Holds ms) = ms"
  by (simp add: stored_def)

lemma stored_Garbled: "stored Garbled = []"
  by (simp add: stored_def)

lemma ascending_Nil: "ascending []"
  by (simp add: ascending_def)

lemma writeMementos_cases:
  "snd (writeMementos e ms f) = f \<or> snd (writeMementos e ms f) = Holds ms
   \<or> snd (writeMementos e ms f) = Holds [] \<or> snd (writeMementos e ms f) = Garbled"
  by (simp add: writeMementos_def createFile_def split: option.splits residue.splits)

lemma writeMementos_ascending:
  assumes "ascending (stored f)" and "ascending ms"
  shows "ascending (stored (snd (writeMementos e ms f)))"
  using writeMementos_cases [of e ms f] assms
  by (auto simp: stored_Holds stored_Garbled ascending_Nil)

lemma add_ascending:
  assumes "ascending (stored f)" and "below_max f"
  shows "ascending (stored (snd (add e args f)))"
proof (cases "2 \<le> length args \<and> \<not> open_fails e \<and> f \<noteq> Garbled")
  case False
  then have "snd (add e args f) = f"
    by (cases f) (auto simp: add_def readMementos_def Let_def)
  then show ?thesis using assms(1) by simp
next
  case True
  then obtain ms where f: "f = Holds ms" by (cases f) simp_all
  have ms: "ascending ms" "ms = [] \<or> Id' (last ms) \<noteq> MaxInt"
    using assms by (auto simp: f stored_Holds below_max_def split: if_splits)
  show ?thesis
    using True assms(1) ascending_snoc [OF ms]
    by (simp add: f add_Holds writeMementos_ascending)
qed

lemma remove_ascending:
  assumes "ascending (stored f)"
  shows "ascending (stored (snd (remove e args f)))"
proof (cases f)
  case Garbled
  then show ?thesis
    using assms by (simp add: remove_def readMementos_def split: sum.splits)
next
  case (Holds ms)
  then have "ascending ms" using assms by (simp add: stored_Holds)
  then have "ascending (take n ms @ drop (n + 1) ms)" for n by (rule ascending_remove)
  then show ?thesis
    using assms
    by (auto simp: Holds remove_def readMementos_def writeMementos_ascending
        split: sum.splits prod.splits)
qed

text \<open>
  Claim C2, as stated, fails: \<^verbatim>\<open>lastId + 1\<close> wraps around. After \<^verbatim>\<open>add\<close> on the store whose
  one record has the largest \<^verbatim>\<open>int\<close> as its id, the new record has the smallest, and the
  ids are no longer ascending.
\<close>

theorem add_wraps_counterexample:
  "ascending [\<lparr>Id' = 9223372036854775807, Msg = ''a'', Time = 0, Priority = 1\<rparr>]
   \<and> apply_mutation
        (Add \<lparr>open_fails = False, mkdir_fails = False, create_fails = False,
               write_fails = None, now = 0, rnd = 0\<rparr> [''add'', ''b''])
        (Holds [\<lparr>Id' = 9223372036854775807, Msg = ''a'', Time = 0, Priority = 1\<rparr>])
      = Holds [\<lparr>Id' = 9223372036854775807, Msg = ''a'', Time = 0, Priority = 1\<rparr>,
               \<lparr>Id' = - 9223372036854775808, Msg = ''b'', Time = 0, Priority = 1\<rparr>]
   \<and> \<not> ascending [\<lparr>Id' = 9223372036854775807, Msg = ''a'', Time = 0, Priority = 1\<rparr>,
                    \<lparr>Id' = - 9223372036854775808, Msg = ''b'', Time = 0, Priority = 1\<rparr>]"
  by (simp add: ascending_def add_def readMementos_def writeMementos_def createFile_def)

text \<open>
  Claim C2, amended. From a file whose ids are strictly ascending, every sequence of
  \<^verbatim>\<open>add\<close> and \<^verbatim>\<open>rm\<close> invocations in which no \<^verbatim>\<open>add\<close> starts from a store whose last id is
  the largest \<^verbatim>\<open>int\<close> leaves a file whose ids are strictly ascending, whatever the
  arguments and whether input and output succeed or fail.
\<close>

theorem run_ascending:
  assumes "ascending (stored f)" and "no_wrap ops f"
  shows "ascending (stored (run ops f))"
  using assms
proof (induction ops arbitrary: f)
  case Nil
  then show ?case by simp
next
  case (Cons op ops)
  show ?case
  proof (cases op)
    case (Add e args)
    with Cons.prems have "ascending (stored (apply_mutation op f))"
      by (simp add: add_ascending)
    with Cons.IH [of "apply_mutation op f"] Cons.prems(2) Add show ?thesis by simp
  next
    case (Remove e args)
    with Cons.prems have "ascending (stored (apply_mutation op f))"
      by (simp add: remove_ascending)
    with Cons.IH [of "apply_mutation op f"] Cons.prems(2) Remove show ?thesis by simp
  qed
qed

theorem run_ascending_witness:
  "ascending (stored (Holds []))
   \<and> no_wrap
       [Add \<lparr>open_fails = False, mkdir_fails = False, create_fails = False,
              write_fails = None, now = 10, rnd = 0\<rparr> [''add'', ''buy'', ''milk''],
        Add \<lparr>open_fails = False, mkdir_fails = False, create_fails = False,
              write_fails = None, now = 20, rnd = 0\<rparr> [''add'', ''call'', ''mom''],
        Remove \<lparr>open_fails = False, mkdir_fails = False, create_fails = False,
                 write_fails = None, now = 30, rnd = 0\<rparr> [''rm'', ''1'']] (Holds [])
   \<and> run
       [Add \<lparr>open_fails = False, mkdir_fails = False, create_fails = False,
              write_fails = None, now = 10, rnd = 0\<rparr> [''add'', ''buy'', ''milk''],
        Add \<lparr>open_fails = False, mkdir_fails = False, create_fails = False,
              write_fails = None, now = 20, rnd = 0\<rparr> [''add'', ''call'', ''mom''],
        Remove \<lparr>open_fails = False, mkdir_fails = False, create_fails = False,
                 write_fails = None, now = 30, rnd = 0\<rparr> [''rm'', ''1'']] (Holds [])
      = Holds [\<lparr>Id' = 2, Msg = ''call mom'', Time = 20, Priority = 1\<rparr>]
   \<and> ascending [\<lparr>Id' = 2, Msg = ''call mom'', Time = 20, Priority = 1\<rparr>]"
  using run_ascending [of "Holds []"
       "[Add \<lparr>open_fails = False, mkdir_fails = False, create_fails = False,
              write_fails = None, now = 10, rnd = 0\<rparr> [''add'', ''buy'', ''milk''],
        Add \<lparr>open_fails = False, mkdir_fails = False, create_fails = False,
              write_fails = None, now = 20, rnd = 0\<rparr> [''add'', ''call'', ''mom''],
        Remove \<lparr>open_fails = False, mkdir_fails = False, create_fails = False,
                 write_fails = None, now = 30, rnd = 0\<rparr> [''rm'', ''1'']]"]
  by (simp add: ascending_def stored_def below_max_def MaxInt_def add_def remove_def
      parseId_def ParseInt_def ParseUint_def digit_def readMementos_def findMementoById_def
      Search_def Search_loop.simps writeMementos_def createFile_def)

section \<open>Add, then remove\<close>

lemma findMementoById_last:
  assumes "ascending (ms @ [m])"
  shows "findMementoById (ms @ [m]) (Id' m) = (length ms, True)"
proof -
  have srt: "sorted_by_id (ms @ [m])" using assms by (rule ascending_sorted_by_id)
  have "\<exists>n \<le> length ms. findMementoById (ms @ [m]) (Id' m) = (n, True)
          \<and> Id' ((ms @ [m]) ! n) = Id' m"
    by (rule findMementoById_present [OF srt]) simp_all
  then obtain n where n: "n \<le> length ms" "findMementoById (ms @ [m]) (Id' m) = (n, True)"
    "Id' ((ms @ [m]) ! n) = Id' m" by blast
  have "n = length ms"
  proof (rule ccontr)
    assume "n \<noteq> length ms"
    with n(1) have lt: "n < length ms" by simp
    then have "ms ! n \<in> set ms" by simp
    moreover have "\<forall>x \<in> set ms. sint (Id' x) < sint (Id' m)"
      using assms by (simp add: ascending_def sorted_wrt_append)
    ultimately have "sint (Id' (ms ! n)) < sint (Id' m)" by blast
    then show False using n(3) lt by (simp add: nth_append)
  qed
  with n(2) show ?thesis by simp
qed

text \<open>
  Claim C6, as stated, fails. On the store whose one record has the largest \<^verbatim>\<open>int\<close> as
  its id, \<^verbatim>\<open>add\<close> assigns the smallest \<^verbatim>\<open>int\<close>, a negative id, and \<^verbatim>\<open>parseId\<close> rejects
  it: \<^verbatim>\<open>rm\<close> of the new id leaves both records.
\<close>

theorem add_then_remove_counterexample:
  "ascending [\<lparr>Id' = 9223372036854775807, Msg = ''a'', Time = 0, Priority = 1\<rparr>]
   \<and> add \<lparr>open_fails = False, mkdir_fails = False, create_fails = False,
            write_fails = None, now = 0, rnd = 0\<rparr> [''add'', ''b'']
        (Holds [\<lparr>Id' = 9223372036854775807, Msg = ''a'', Time = 0, Priority = 1\<rparr>])
      = (None, Holds [\<lparr>Id' = 9223372036854775807, Msg = ''a'', Time = 0, Priority = 1\<rparr>,
                      \<lparr>Id' = - 9223372036854775808, Msg = ''b'', Time = 0, Priority = 1\<rparr>])
   \<and> remove \<lparr>open_fails = False, mkdir_fails = False, create_fails = False,
               write_fails = None, now = 0, rnd = 0\<rparr> [''rm'', ''-9223372036854775808'']
        (Holds [\<lparr>Id' = 9223372036854775807, Msg = ''a'', Time = 0, Priority = 1\<rparr>,
                \<lparr>Id' = - 9223372036854775808, Msg = ''b'', Time = 0, Priority = 1\<rparr>])
      = (Some (InvalidId ''-9223372036854775808''),
         Holds [\<lparr>Id' = 9223372036854775807, Msg = ''a'', Time = 0, Priority = 1\<rparr>,
                \<lparr>Id' = - 9223372036854775808, Msg = ''b'', Time = 0, Priority = 1\<rparr>])"
  by (simp add: ascending_def add_def remove_def parseId_def ParseInt_def ParseUint_def
      digit_def readMementos_def writeMementos_def createFile_def)

text \<open>
  Claim C6, amended. On a store with strictly ascending ids whose last id is not the
  largest \<^verbatim>\<open>int\<close>, and where the id that \<^verbatim>\<open>add\<close> assigns is not negative, \<^verbatim>\<open>add\<close> with a
  message followed by \<^verbatim>\<open>rm\<close> of the id just assigned leaves the file holding the
  sequence it held before. Input and output are assumed to succeed in both
  invocations.
\<close>

theorem add_then_remove:
  assumes "ascending ms" and "ms = [] \<or> Id' (last ms) \<noteq> MaxInt"
    and "2 \<le> length args"
    and "\<not> open_fails e1" and "\<not> mkdir_fails e1" and "\<not> create_fails e1"
    and "write_fails e1 = None"
    and "\<not> open_fails e2" and "\<not> mkdir_fails e2" and "\<not> create_fails e2"
    and "write_fails e2 = None"
    and "ParseInt idstr = Inr (if ms = [] then 1 else Id' (last ms) + 1)"
    and "0 \<le> sint (if ms = [] then 1 else Id' (last ms) + 1 :: 64 word)"
  shows "remove e2 (cmd # idstr # rest) (snd (add e1 args (Holds ms))) = (None, Holds ms)"
proof -
  define m where "m = \<lparr>Id' = (if ms = [] then 1 else Id' (last ms) + 1),
    Msg = Join (tl args) '' '', Time = now e1, Priority = 1\<rparr>"
  have a: "add e1 args (Holds ms) = (None, Holds (ms @ [m]))"
    using assms(3-7) by (simp add: add_Holds writeMementos_ok m_def)
  have "ascending (ms @ [m])"
    unfolding m_def using assms(1,2) by (rule ascending_snoc)
  then have fnd: "findMementoById (ms @ [m]) (Id' m) = (length ms, True)"
    by (rule findMementoById_last)
  have idm: "Id' m = (if ms = [] then 1 else Id' (last ms) + 1)" by (simp add: m_def)
  have p: "parseId (cmd # idstr # rest) = Inr (Id' m)"
    using assms(12,13) by (simp add: parseId_Cons idm)
  show ?thesis
    using assms(8-11) fnd
    by (simp add: a remove_def p readMementos_Holds writeMementos_ok)
qed

theorem add_then_remove_witness:
  "ascending [\<lparr>Id' = 1, Msg = ''buy milk'', Time = 10, Priority = 1\<rparr>]
   \<and> Id' (last [\<lparr>Id' = 1, Msg = ''buy milk'', Time = 10, Priority = 1\<rparr>]) \<noteq> MaxInt
   \<and> ParseInt ''2'' = Inr 2
   \<and> add \<lparr>open_fails = False, mkdir_fails = False, create_fails = False,
            write_fails = None, now = 20, rnd = 0\<rparr> [''add'', ''call'', ''mom'']
        (Holds [\<lparr>Id' = 1, Msg = ''buy milk'', Time = 10, Priority = 1\<rparr>])
      = (None, Holds [\<lparr>Id' = 1, Msg = ''buy milk'', Time = 10, Priority = 1\<rparr>,
                      \<lparr>Id' = 2, Msg = ''call mom'', Time = 20, Priority = 1\<rparr>])
   \<and> remove \<lparr>open_fails = False, mkdir_fails = False, create_fails = False,
               write_fails = None, now = 30, rnd = 0\<rparr> [''rm'', ''2'']
        (snd (add \<lparr>open_fails = False, mkdir_fails = False, create_fails = False,
                    write_fails = None, now = 20, rnd = 0\<rparr> [''add'', ''call'', ''mom'']
                (Holds [\<lparr>Id' = 1, Msg = ''buy milk'', Time = 10, Priority = 1\<rparr>])))
      = (None, Holds [\<lparr>Id' = 1, Msg = ''buy milk'', Time = 10, Priority = 1\<rparr>])"
  using add_then_remove [of "[\<lparr>Id' = 1, Msg = ''buy milk'', Time = 10, Priority = 1\<rparr>]"
      "[''add'', ''call'', ''mom'']"
      "\<lparr>open_fails = False, mkdir_fails = False, create_fails = False,
        write_fails = None, now = 20, rnd = 0\<rparr>"
      "\<lparr>open_fails = False, mkdir_fails = False, create_fails = False,
        write_fails = None, now = 30, rnd = 0\<rparr>" "''2''" "''rm''" "[]"]
  by (simp add: ascending_def MaxInt_def add_def remove_def parseId_def ParseInt_def
      ParseUint_def digit_def readMementos_def findMementoById_def Search_def
      Search_loop.simps writeMementos_def createFile_def)

end
